theory Spec2Isabelle
  imports Complex_Main
begin

section \<open>JavaScript numbers\<close>

text \<open>
  The swipe handler computes with JavaScript numbers. Finite values are idealised as
  rationals (rounding of doubles is not modelled); the non-finite results that the
  handler can produce through \<^verbatim>\<open>Math.abs(deltaY) / deltaTime\<close> are values of
  their own, and the operations applied to them follow the language: a comparison with
  NaN is false, \<^verbatim>\<open>Math.min\<close> and \<^verbatim>\<open>Math.max\<close> return NaN on NaN.
\<close>

datatype jsnum = Fin rat | PosInf | NegInf | NaN

definition js_div :: "rat \<Rightarrow> rat \<Rightarrow> jsnum" where
  \<comment> \<open>\<^verbatim>\<open>a / b\<close> on finite operands; a zero divisor is \<^verbatim>\<open>+0\<close>.\<close>
  "js_div a b =
     (if b = 0 then (if a = 0 then NaN else if 0 < a then PosInf else NegInf)
      else Fin (a / b))"

fun js_gt :: "jsnum \<Rightarrow> rat \<Rightarrow> bool" where
  "js_gt (Fin v) c = (c < v)"
| "js_gt PosInf c = True"
| "js_gt NegInf c = False"
| "js_gt NaN c = False"

fun js_min :: "jsnum \<Rightarrow> rat \<Rightarrow> jsnum" where
  "js_min (Fin v) c = Fin (min v c)"
| "js_min PosInf c = Fin c"
| "js_min NegInf c = NegInf"
| "js_min NaN c = NaN"

fun js_max :: "rat \<Rightarrow> jsnum \<Rightarrow> jsnum" where
  "js_max c (Fin v) = Fin (max c v)"
| "js_max c PosInf = PosInf"
| "js_max c NegInf = Fin c"
| "js_max c NaN = NaN"

fun js_times :: "rat \<Rightarrow> jsnum \<Rightarrow> jsnum" where
  "js_times a (Fin b) = Fin (a * b)"
| "js_times a PosInf = (if 0 < a then PosInf else if a < 0 then NegInf else NaN)"
| "js_times a NegInf = (if 0 < a then NegInf else if a < 0 then PosInf else NaN)"
| "js_times a NaN = NaN"

fun js_plus :: "rat \<Rightarrow> jsnum \<Rightarrow> jsnum" where
  "js_plus a (Fin b) = Fin (a + b)"
| "js_plus a PosInf = PosInf"
| "js_plus a NegInf = NegInf"
| "js_plus a NaN = NaN"

fun js_minus :: "rat \<Rightarrow> jsnum \<Rightarrow> jsnum" where
  "js_minus a (Fin b) = Fin (a - b)"
| "js_minus a PosInf = NegInf"
| "js_minus a NegInf = PosInf"
| "js_minus a NaN = NaN"

definition toNumber :: "'a::zero option \<Rightarrow> 'a" where
  \<comment> \<open>A field holding \<^verbatim>\<open>null\<close> reads as 0 in an arithmetic expression.\<close>
  "toNumber v = (case v of None \<Rightarrow> 0 | Some x \<Rightarrow> x)"

section \<open>Data\<close>

datatype direction = Up | Down | Left | Right

datatype completion = Normal | Exception

text \<open>
  The optional \<^verbatim>\<open>onSwipe\<close> callback is external code: the handler sees of it
  only whether the call returns or throws. \<open>None\<close> stands for a missing callback and for
  a value that is not a function.
\<close>

type_synonym callback = "direction \<Rightarrow> rat \<Rightarrow> rat \<Rightarrow> int \<Rightarrow> completion"

record config =
  minSwipeDistance :: rat
  scrollSmoothness :: string
  snapToSections :: bool
  showVisualFeedback :: bool
  feedbackDuration :: rat
  verticalOnly :: bool
  horizontalOnly :: bool
  enableMomentum :: bool
  momentumMultiplier :: rat
  enableGradient :: bool
  onSwipe :: "callback option"

definition DEFAULT_CONFIG :: config where
  "DEFAULT_CONFIG =
     \<lparr> minSwipeDistance = 26, scrollSmoothness = ''smooth'', snapToSections = False,
       showVisualFeedback = True, feedbackDuration = 300, verticalOnly = True,
       horizontalOnly = False, enableMomentum = True, momentumMultiplier = 5 / 2,
       enableGradient = True, onSwipe = None \<rparr>"

record touch =
  clientX :: rat
  clientY :: rat

text \<open>
  What a handler reads from its environment while it runs: the clock
  (\<^verbatim>\<open>Date.now()\<close>, whole milliseconds), the two scroll offsets, and for the
  section snap the viewport-relative tops of the section-like elements in document order
  and the viewport height.
\<close>

record env =
  now :: int
  pageYOffset :: rat
  docScrollTop :: rat
  sectionTops :: "rat list"
  innerHeight :: rat

text \<open>
  An event carries its touch list (\<^verbatim>\<open>touches\<close> for start and move,
  \<^verbatim>\<open>changedTouches\<close> for end; a missing list reads like an empty one through
  \<^verbatim>\<open>?.[0]\<close>) and the environment at the time it is handled.
\<close>

datatype event =
    TouchStart "touch list" env
  | TouchMove "touch list"
  | TouchEnd "touch list" env
  | TouchCancel

datatype listener = OnTouchStart | OnTouchMove | OnTouchEnd | OnTouchCancel

datatype timer = HideTop rat | HideBottom rat | SnapTo nat string

text \<open>The fields of a \<^verbatim>\<open>SwipeHandler\<close> instance.\<close>

record handler =
  touchStartX :: "rat option"
  touchStartY :: "rat option"
  touchStartTime :: "int option"
  lastScrollTop :: rat
  isScrolling :: bool
  gradientOverlay :: "nat option"
  gradientOverlayBottom :: "nat option"

text \<open>
  The host side: the overlay nodes attached to the document body (by node id), the
  nodes whose opacity is 1, the listeners bound on the element, the pending timeouts,
  and the calls made out of the handler so far (\<^verbatim>\<open>window.scrollTo\<close> with its
  \<^verbatim>\<open>top\<close> and \<^verbatim>\<open>behavior\<close>, \<^verbatim>\<open>onSwipe\<close> with its arguments),
  and the number of exceptions that left a listener uncaught.
\<close>

record host =
  bodyNodes :: "nat list"
  nextNode :: nat
  shown :: "nat set"
  listeners :: "listener list"
  timers :: "timer list"
  scrolls :: "(jsnum \<times> string) list"
  swipes :: "(direction \<times> rat \<times> rat \<times> int) list"
  uncaught :: nat

section \<open>The swipe handler\<close>

definition createGradientOverlay :: "handler \<Rightarrow> host \<Rightarrow> handler \<times> host" where
  "createGradientOverlay h p =
     (let upper = nextNode p; lower = nextNode p + 1
      in (h\<lparr>gradientOverlay := Some upper, gradientOverlayBottom := Some lower\<rparr>,
          p\<lparr>bodyNodes := bodyNodes p @ [upper, lower], nextNode := nextNode p + 2,
            shown := shown p - {upper, lower}\<rparr>))"

definition bindEvents :: "host \<Rightarrow> host" where
  "bindEvents p =
     p\<lparr>listeners := listeners p @ [OnTouchStart, OnTouchMove, OnTouchEnd, OnTouchCancel]\<rparr>"

definition constructor :: "config \<Rightarrow> host \<Rightarrow> handler \<times> host" where
  "constructor cfg p =
     (let h = \<lparr> touchStartX = None, touchStartY = None, touchStartTime = None,
                lastScrollTop = 0, isScrolling = False,
                gradientOverlay = None, gradientOverlayBottom = None \<rparr>;
          (h1, p1) = (if showVisualFeedback cfg \<and> enableGradient cfg
                      then createGradientOverlay h p else (h, p))
      in (h1, bindEvents p1))"

definition currentScroll :: "env \<Rightarrow> rat" where
  \<comment> \<open>\<^verbatim>\<open>window.pageYOffset || document.documentElement.scrollTop\<close>\<close>
  "currentScroll e = (if pageYOffset e \<noteq> 0 then pageYOffset e else docScrollTop e)"

definition showGradient :: "config \<Rightarrow> handler \<Rightarrow> direction \<Rightarrow> host \<Rightarrow> host" where
  "showGradient cfg h d p =
     (if \<not> enableGradient cfg then p
      else if d = Up \<and> gradientOverlay h \<noteq> None
        then p\<lparr>shown := insert (the (gradientOverlay h)) (shown p),
               timers := timers p @ [HideTop (feedbackDuration cfg)]\<rparr>
      else if d = Down \<and> gradientOverlayBottom h \<noteq> None
        then p\<lparr>shown := insert (the (gradientOverlayBottom h)) (shown p),
               timers := timers p @ [HideBottom (feedbackDuration cfg)]\<rparr>
      else p)"

definition handleTouchStart :: "touch list \<Rightarrow> env \<Rightarrow> handler \<Rightarrow> handler" where
  "handleTouchStart ts e h =
     (case ts of
        [] \<Rightarrow> h
      | t # _ \<Rightarrow>
          h\<lparr>touchStartX := Some (clientX t), touchStartY := Some (clientY t),
            touchStartTime := Some (now e), lastScrollTop := currentScroll e,
            isScrolling := False\<rparr>)"

definition handleTouchMove :: "config \<Rightarrow> touch list \<Rightarrow> handler \<Rightarrow> handler" where
  "handleTouchMove cfg ts h =
     (if touchStartY h = None then h
      else case ts of
        [] \<Rightarrow> h
      | t # _ \<Rightarrow>
          (let deltaX = \<bar>clientX t - toNumber (touchStartX h)\<bar>;
               deltaY = \<bar>clientY t - toNumber (touchStartY h)\<bar>
           in if \<not> isScrolling h then
                (if verticalOnly cfg \<and> deltaY > deltaX then h\<lparr>isScrolling := True\<rparr>
                 else if horizontalOnly cfg \<and> deltaX > deltaY then h\<lparr>isScrolling := True\<rparr>
                 else if \<not> verticalOnly cfg \<and> \<not> horizontalOnly cfg
                   then h\<lparr>isScrolling := True\<rparr>
                 else h)
              else h))"

definition getSwipeDirection :: "config \<Rightarrow> rat \<Rightarrow> rat \<Rightarrow> direction" where
  "getSwipeDirection cfg deltaX deltaY =
     (if verticalOnly cfg then (if deltaY > 0 then Down else Up)
      else if horizontalOnly cfg then (if deltaX > 0 then Right else Left)
      else (let absDeltaX = \<bar>deltaX\<bar>; absDeltaY = \<bar>deltaY\<bar>
            in if absDeltaY > absDeltaX then (if deltaY > 0 then Down else Up)
               else (if deltaX > 0 then Right else Left)))"

definition resetTouch :: "handler \<Rightarrow> handler" where
  "resetTouch h =
     h\<lparr>touchStartX := None, touchStartY := None, touchStartTime := None,
       isScrolling := False\<rparr>"

definition handleTouchCancel :: "handler \<Rightarrow> handler" where
  "handleTouchCancel h = resetTouch h"

text \<open>
  The loop of \<^verbatim>\<open>_snapToNearestSection\<close>: \<open>i\<close> is the index of the section
  looked at, the accumulator holds \<^verbatim>\<open>nearestSection\<close> and
  \<^verbatim>\<open>minDistance\<close>, whose initial value \<^verbatim>\<open>Infinity\<close> is \<open>None\<close>.
\<close>

fun nearestSection ::
  "rat \<Rightarrow> rat \<Rightarrow> rat list \<Rightarrow> nat \<Rightarrow> nat option \<times> rat option \<Rightarrow> nat option \<times> rat option"
where
  "nearestSection cur vh [] i acc = acc"
| "nearestSection cur vh (rectTop # rest) i (nearest, minDistance) =
     (let sectionTop = rectTop + cur;
          distance = \<bar>sectionTop - cur\<bar>
      in if (case minDistance of None \<Rightarrow> True | Some m \<Rightarrow> distance < m) \<and> distance < vh
         then nearestSection cur vh rest (Suc i) (Some i, Some distance)
         else nearestSection cur vh rest (Suc i) (nearest, minDistance))"

definition snapToNearestSection :: "config \<Rightarrow> env \<Rightarrow> host \<Rightarrow> host" where
  "snapToNearestSection cfg e p =
     (if sectionTops e = [] then p
      else case fst (nearestSection (currentScroll e) (innerHeight e) (sectionTops e) 0
                       (None, None)) of
             None \<Rightarrow> p
           | Some i \<Rightarrow> p\<lparr>timers := timers p @ [SnapTo i (scrollSmoothness cfg)]\<rparr>)"

text \<open>
  The value of the local \<^verbatim>\<open>scrollAmount\<close> of \<^verbatim>\<open>_handleVerticalScroll\<close>
  after the momentum step.
\<close>

definition scrollAmount :: "config \<Rightarrow> rat \<Rightarrow> int \<Rightarrow> jsnum" where
  "scrollAmount cfg deltaY deltaTime =
     (let velocity = js_div \<bar>deltaY\<bar> (of_int deltaTime)
      in if enableMomentum cfg \<and> js_gt velocity (1 / 2)
         then js_times \<bar>deltaY\<bar> (js_times (momentumMultiplier cfg) (js_min velocity 2))
         else Fin \<bar>deltaY\<bar>)"

definition handleVerticalScroll ::
  "config \<Rightarrow> handler \<Rightarrow> env \<Rightarrow> rat \<Rightarrow> int \<Rightarrow> direction \<Rightarrow> host \<Rightarrow> host" where
  "handleVerticalScroll cfg h e deltaY deltaTime d p =
     (let amount = scrollAmount cfg deltaY deltaTime;
          currentScrollTop = currentScroll e;
          targetScrollTop = (if d = Up then js_plus currentScrollTop amount
                             else js_minus currentScrollTop amount);
          p1 = showGradient cfg h d p;
          p2 = p1\<lparr>scrolls := scrolls p1 @ [(js_max 0 targetScrollTop, scrollSmoothness cfg)]\<rparr>
      in if snapToSections cfg then snapToNearestSection cfg e p2 else p2)"

text \<open>The condition under which \<^verbatim>\<open>_handleTouchEnd\<close> treats the interaction as a swipe.\<close>

definition isValidSwipe :: "config \<Rightarrow> rat \<Rightarrow> rat \<Rightarrow> bool" where
  "isValidSwipe cfg deltaX deltaY =
     (let absDeltaX = \<bar>deltaX\<bar>; absDeltaY = \<bar>deltaY\<bar>;
          isVerticalSwipe = (verticalOnly cfg \<and> absDeltaY > absDeltaX);
          isHorizontalSwipe = (horizontalOnly cfg \<and> absDeltaX > absDeltaY);
          isSwipe = (\<not> verticalOnly cfg \<and> \<not> horizontalOnly cfg)
      in (isVerticalSwipe \<or> isHorizontalSwipe \<or> isSwipe) \<and>
         (absDeltaY \<ge> minSwipeDistance cfg \<or> absDeltaX \<ge> minSwipeDistance cfg))"

definition invokeOnSwipe ::
  "config \<Rightarrow> direction \<Rightarrow> rat \<Rightarrow> rat \<Rightarrow> int \<Rightarrow> host \<Rightarrow> completion \<times> host" where
  "invokeOnSwipe cfg d deltaX deltaY deltaTime p =
     (case onSwipe cfg of
        None \<Rightarrow> (Normal, p)
      | Some f \<Rightarrow>
          (f d deltaX deltaY deltaTime,
           p\<lparr>swipes := swipes p @ [(d, deltaX, deltaY, deltaTime)]\<rparr>))"

text \<open>
  \<^verbatim>\<open>_handleTouchEnd\<close> has no exception handler: when the callback throws, the
  rest of the body, the scroll and \<^verbatim>\<open>_resetTouch()\<close>, is not run.
\<close>

definition handleTouchEnd ::
  "config \<Rightarrow> touch list \<Rightarrow> env \<Rightarrow> handler \<Rightarrow> host \<Rightarrow> completion \<times> handler \<times> host" where
  "handleTouchEnd cfg ts e h p =
     (if touchStartY h = None \<and> touchStartX h = None then (Normal, h, p)
      else case ts of
        [] \<Rightarrow> (Normal, h, p)
      | t # _ \<Rightarrow>
          (let deltaX = clientX t - toNumber (touchStartX h);
               deltaY = clientY t - toNumber (touchStartY h);
               deltaTime = now e - toNumber (touchStartTime h)
           in if isValidSwipe cfg deltaX deltaY then
                (let swipeDirection = getSwipeDirection cfg deltaX deltaY
                 in case invokeOnSwipe cfg swipeDirection deltaX deltaY deltaTime p of
                      (Exception, p1) \<Rightarrow> (Exception, h, p1)
                    | (Normal, p1) \<Rightarrow>
                        (Normal, resetTouch h,
                         if verticalOnly cfg
                         then handleVerticalScroll cfg h e deltaY deltaTime swipeDirection p1
                         else p1))
              else (Normal, resetTouch h, p)))"

definition destroy :: "handler \<times> host \<Rightarrow> handler \<times> host" where
  "destroy hp =
     (let (h, p) = hp;
          (h1, p1) = (case gradientOverlay h of
                        Some n \<Rightarrow> (h\<lparr>gradientOverlay := None\<rparr>,
                                   p\<lparr>bodyNodes := removeAll n (bodyNodes p)\<rparr>)
                      | None \<Rightarrow> (h, p))
      in (case gradientOverlayBottom h1 of
            Some n \<Rightarrow> (h1\<lparr>gradientOverlayBottom := None\<rparr>,
                       p1\<lparr>bodyNodes := removeAll n (bodyNodes p1)\<rparr>)
          | None \<Rightarrow> (h1, p1)))"

section \<open>Event delivery\<close>

text \<open>
  An event reaches a handler method only through a listener bound on the element. An
  exception that leaves a listener is reported by the host, and the next event is
  delivered as usual.
\<close>

fun listenerOf :: "event \<Rightarrow> listener" where
  "listenerOf (TouchStart ts e) = OnTouchStart"
| "listenerOf (TouchMove ts) = OnTouchMove"
| "listenerOf (TouchEnd ts e) = OnTouchEnd"
| "listenerOf TouchCancel = OnTouchCancel"

fun handleEvent :: "config \<Rightarrow> event \<Rightarrow> handler \<Rightarrow> host \<Rightarrow> completion \<times> handler \<times> host" where
  "handleEvent cfg (TouchStart ts e) h p = (Normal, handleTouchStart ts e h, p)"
| "handleEvent cfg (TouchMove ts) h p = (Normal, handleTouchMove cfg ts h, p)"
| "handleEvent cfg (TouchEnd ts e) h p = handleTouchEnd cfg ts e h p"
| "handleEvent cfg TouchCancel h p = (Normal, handleTouchCancel h, p)"

definition deliver :: "config \<Rightarrow> event \<Rightarrow> handler \<times> host \<Rightarrow> handler \<times> host" where
  "deliver cfg ev hp =
     (let (h, p) = hp
      in if listenerOf ev \<in> set (listeners p) then
           (case handleEvent cfg ev h p of
              (Normal, h1, p1) \<Rightarrow> (h1, p1)
            | (Exception, h1, p1) \<Rightarrow> (h1, p1\<lparr>uncaught := uncaught p1 + 1\<rparr>))
         else (h, p))"

fun run :: "config \<Rightarrow> event list \<Rightarrow> handler \<times> host \<Rightarrow> handler \<times> host" where
  "run cfg [] hp = hp"
| "run cfg (ev # evs) hp = run cfg evs (deliver cfg ev hp)"

definition emptyHost :: host where
  "emptyHost =
     \<lparr> bodyNodes = [], nextNode = 0, shown = {}, listeners = [], timers = [],
       scrolls = [], swipes = [], uncaught = 0 \<rparr>"

section \<open>The specification's vocabulary\<close>

text \<open>
  The specification speaks of one \<open>axisMode\<close> where the configuration has the two flags
  \<^verbatim>\<open>verticalOnly\<close> and \<^verbatim>\<open>horizontalOnly\<close>. \<open>axisConfig\<close> sets the flags
  for a mode; \<open>spec_validityGate\<close> is the validity gate in the specification's words (the
  axis constraint, and the absolute delta on the governing axis at least
  \<open>minSwipeDistance\<close>, the governing axis in mode any being the one with the larger
  absolute delta). It is compared below with \<open>isValidSwipe\<close>, which is the code.
\<close>

datatype axisMode = Vertical | Horizontal | AnyAxis

fun axisConfig :: "axisMode \<Rightarrow> config \<Rightarrow> config" where
  "axisConfig Vertical cfg = cfg\<lparr>verticalOnly := True, horizontalOnly := False\<rparr>"
| "axisConfig Horizontal cfg = cfg\<lparr>verticalOnly := False, horizontalOnly := True\<rparr>"
| "axisConfig AnyAxis cfg = cfg\<lparr>verticalOnly := False, horizontalOnly := False\<rparr>"

fun spec_validityGate :: "axisMode \<Rightarrow> rat \<Rightarrow> rat \<Rightarrow> rat \<Rightarrow> bool" where
  "spec_validityGate Vertical minDist deltaX deltaY =
     (\<bar>deltaY\<bar> > \<bar>deltaX\<bar> \<and> \<bar>deltaY\<bar> \<ge> minDist)"
| "spec_validityGate Horizontal minDist deltaX deltaY =
     (\<bar>deltaX\<bar> > \<bar>deltaY\<bar> \<and> \<bar>deltaX\<bar> \<ge> minDist)"
| "spec_validityGate AnyAxis minDist deltaX deltaY = (max \<bar>deltaX\<bar> \<bar>deltaY\<bar> \<ge> minDist)"

text \<open>Two callbacks to run the handler with: one that throws, one that returns.\<close>

definition throwingCallback :: callback where
  "throwingCallback d deltaX deltaY deltaTime = Exception"

definition returningCallback :: callback where
  "returningCallback d deltaX deltaY deltaTime = Normal"

text \<open>
  The three origin fields are written together by the code; \<open>originConsistent\<close> says
  that they are all \<^verbatim>\<open>null\<close> or all set.
\<close>

definition originConsistent :: "handler \<Rightarrow> bool" where
  "originConsistent h =
     ((touchStartX h = None) = (touchStartY h = None) \<and>
      (touchStartY h = None) = (touchStartTime h = None))"

text \<open>The inputs of the end-to-end scenario: a touch at a point, the environment at a time.\<close>

definition touchAt :: "rat \<Rightarrow> rat \<Rightarrow> touch" where
  "touchAt x y = \<lparr>clientX = x, clientY = y\<rparr>"

definition envAt :: "int \<Rightarrow> rat \<Rightarrow> env" where
  "envAt t scrollTop =
     \<lparr>now = t, pageYOffset = scrollTop, docScrollTop = scrollTop, sectionTops = [],
      innerHeight = 800\<rparr>"

text \<open>The events of that scenario: a swipe up by 60 pixels in 100 ms.\<close>

definition swipeUp :: "event list" where
  "swipeUp =
     [TouchStart [touchAt 100 500] (envAt 0 200), TouchEnd [touchAt 100 440] (envAt 100 200)]"

text \<open>
  Two states agree on the gesture when they differ at most in the overlays: the handler's
  two overlay references, the nodes of the body, their visibility and the pending timers.
\<close>

definition sameGesture :: "handler \<times> host \<Rightarrow> handler \<times> host \<Rightarrow> bool" where
  "sameGesture a b =
     (touchStartX (fst a) = touchStartX (fst b) \<and> touchStartY (fst a) = touchStartY (fst b) \<and>
      touchStartTime (fst a) = touchStartTime (fst b) \<and>
      lastScrollTop (fst a) = lastScrollTop (fst b) \<and> isScrolling (fst a) = isScrolling (fst b) \<and>
      listeners (snd a) = listeners (snd b) \<and> scrolls (snd a) = scrolls (snd b) \<and>
      swipes (snd a) = swipes (snd b) \<and> uncaught (snd a) = uncaught (snd b))"

section \<open>Auxiliary facts\<close>

lemmas model_defs =
  DEFAULT_CONFIG_def constructor_def emptyHost_def createGradientOverlay_def bindEvents_def
  deliver_def handleTouchStart_def handleTouchEnd_def isValidSwipe_def getSwipeDirection_def
  invokeOnSwipe_def handleVerticalScroll_def scrollAmount_def js_div_def showGradient_def
  currentScroll_def resetTouch_def toNumber_def Let_def handleTouchCancel_def
  handleTouchMove_def destroy_def snapToNearestSection_def touchAt_def envAt_def
  throwingCallback_def returningCallback_def swipeUp_def

lemma run_append: "run cfg (xs @ ys) hp = run cfg ys (run cfg xs hp)"
  by (induction xs arbitrary: hp) simp_all

lemma isValidSwipe_axis:
  "isValidSwipe (axisConfig m cfg) deltaX deltaY
     = spec_validityGate m (minSwipeDistance cfg) deltaX deltaY"
  by (cases m) (auto simp: isValidSwipe_def Let_def)

lemma axisConfig_fields [simp]:
  "minSwipeDistance (axisConfig m cfg) = minSwipeDistance cfg"
  "onSwipe (axisConfig m cfg) = onSwipe cfg"
  by (cases m; simp)+

lemma swipes_showGradient [simp]: "swipes (showGradient cfg h d q) = swipes q"
  by (simp add: showGradient_def)

lemma swipes_snapToNearestSection [simp]: "swipes (snapToNearestSection cfg e q) = swipes q"
  by (simp add: snapToNearestSection_def split: option.splits)

lemma swipes_handleVerticalScroll [simp]:
  "swipes (handleVerticalScroll cfg h e dy dt d q) = swipes q"
  by (simp add: handleVerticalScroll_def Let_def)

lemma handleTouchEnd_swipes:
  assumes "touchStartX h = Some x0" "touchStartY h = Some y0" "touchStartTime h = Some t0"
    and "onSwipe cfg = Some f"
  shows "swipes (snd (snd (handleTouchEnd cfg (t # ts) e h p))) =
     (if isValidSwipe cfg (clientX t - x0) (clientY t - y0)
      then swipes p @ [(getSwipeDirection cfg (clientX t - x0) (clientY t - y0),
                        clientX t - x0, clientY t - y0, now e - t0)]
      else swipes p)"
  using assms
  by (simp add: handleTouchEnd_def invokeOnSwipe_def toNumber_def Let_def
      split: completion.splits)

subsection \<open>The scroll amount as a rational\<close>

lemma scrollAmount_zero_time:
  "scrollAmount cfg deltaY 0 =
     Fin (if enableMomentum cfg \<and> deltaY \<noteq> 0
          then \<bar>deltaY\<bar> * (momentumMultiplier cfg * 2) else \<bar>deltaY\<bar>)"
  by (simp add: scrollAmount_def js_div_def)

lemma scrollAmount_nonzero_time:
  "t \<noteq> 0 \<Longrightarrow> scrollAmount cfg deltaY t =
     Fin (if enableMomentum cfg \<and> 1 / 2 < \<bar>deltaY\<bar> / of_int t
          then \<bar>deltaY\<bar> * (momentumMultiplier cfg * min (\<bar>deltaY\<bar> / of_int t) 2)
          else \<bar>deltaY\<bar>)"
  by (simp add: scrollAmount_def js_div_def)

lemma amount_bound_aux:
  fixes a m v :: rat
  assumes "0 \<le> a" "1 / 2 \<le> m"
  shows "a * (m * min v 2) \<le> a * m * 2 \<and> a \<le> a * m * 2"
proof (intro conjI)
  have "m * min v 2 \<le> m * 2" using assms by (intro mult_left_mono) auto
  then have "a * (m * min v 2) \<le> a * (m * 2)" using assms by (intro mult_left_mono) auto
  then show "a * (m * min v 2) \<le> a * m * 2" by (simp add: mult.assoc)
  have "1 \<le> m * 2" using assms by simp
  then have "a * 1 \<le> a * (m * 2)" using assms by (intro mult_left_mono) auto
  then show "a \<le> a * m * 2" by (simp add: mult.assoc)
qed

lemma scrollAmount_bound:
  assumes "1 / 2 \<le> momentumMultiplier cfg"
  shows "\<exists>a. scrollAmount cfg deltaY t = Fin a \<and> a \<le> \<bar>deltaY\<bar> * momentumMultiplier cfg * 2"
proof (cases "t = 0")
  case True
  then show ?thesis
    using amount_bound_aux[where a = "\<bar>deltaY\<bar>" and m = "momentumMultiplier cfg"] assms
    by (simp add: scrollAmount_zero_time mult.assoc)
next
  case False
  then show ?thesis
    using amount_bound_aux[where a = "\<bar>deltaY\<bar>" and m = "momentumMultiplier cfg"
        and v = "\<bar>deltaY\<bar> / of_int t"] assms
    by (simp add: scrollAmount_nonzero_time)
qed

lemma amount_gain_aux:
  fixes a m v :: rat
  assumes "0 \<le> a" "2 \<le> m" "1 / 2 < v"
  shows "a \<le> a * (m * min v 2)"
proof -
  have "1 / 2 \<le> min v 2" using assms by simp
  then have "2 * (1 / 2) \<le> m * min v 2" using assms by (intro mult_mono) auto
  then have "a * 1 \<le> a * (m * min v 2)" using assms by (intro mult_left_mono) auto
  then show ?thesis by simp
qed

lemma amount_mono_aux:
  fixes a m v w :: rat
  assumes "0 \<le> a" "0 \<le> m" "v \<le> w"
  shows "a * (m * min v 2) \<le> a * (m * min w 2)"
proof -
  have "min v 2 \<le> min w 2" using assms by simp
  then have "m * min v 2 \<le> m * min w 2" using assms by (intro mult_left_mono) auto
  then show ?thesis using assms by (intro mult_left_mono) auto
qed

lemma scrollAmount_mono:
  assumes m: "2 \<le> momentumMultiplier cfg" and t: "0 \<le> t1" "t1 \<le> t2"
  shows "\<exists>a b. scrollAmount cfg deltaY t2 = Fin a \<and> scrollAmount cfg deltaY t1 = Fin b \<and> a \<le> b"
proof (cases "t1 = 0")
  case True
  note t1 = this
  show ?thesis
  proof (cases "t2 = 0")
    case True
    with t1 show ?thesis by (simp add: scrollAmount_zero_time)
  next
    case False
    have m': "1 / 2 \<le> momentumMultiplier cfg" using m by simp
    have "0 < \<bar>deltaY\<bar> / rat_of_int t2 \<Longrightarrow> deltaY \<noteq> 0" by auto
    then show ?thesis
      using False t1 amount_bound_aux[where a = "\<bar>deltaY\<bar>" and m = "momentumMultiplier cfg"
          and v = "\<bar>deltaY\<bar> / of_int t2"] m'
      by (auto simp add: scrollAmount_zero_time scrollAmount_nonzero_time mult.assoc)
  qed
next
  case False
  then have p1: "0 < t1" and p2: "0 < t2" using t by auto
  have v: "\<bar>deltaY\<bar> / of_int t2 \<le> \<bar>deltaY\<bar> / rat_of_int t1"
    using p1 p2 t by (intro divide_left_mono) auto
  have m0: "0 \<le> momentumMultiplier cfg" using m by simp
  define v1 where "v1 = \<bar>deltaY\<bar> / rat_of_int t1"
  define v2 where "v2 = \<bar>deltaY\<bar> / rat_of_int t2"
  have a1: "scrollAmount cfg deltaY t1 =
      Fin (if enableMomentum cfg \<and> 1 / 2 < v1
           then \<bar>deltaY\<bar> * (momentumMultiplier cfg * min v1 2) else \<bar>deltaY\<bar>)"
    using p1 unfolding v1_def by (intro scrollAmount_nonzero_time) simp
  have a2: "scrollAmount cfg deltaY t2 =
      Fin (if enableMomentum cfg \<and> 1 / 2 < v2
           then \<bar>deltaY\<bar> * (momentumMultiplier cfg * min v2 2) else \<bar>deltaY\<bar>)"
    using p2 unfolding v2_def by (intro scrollAmount_nonzero_time) simp
  have le: "v2 \<le> v1" using v by (simp only: v1_def v2_def)
  have mono: "\<bar>deltaY\<bar> * (momentumMultiplier cfg * min v2 2)
      \<le> \<bar>deltaY\<bar> * (momentumMultiplier cfg * min v1 2)"
    using amount_mono_aux[OF _ m0 le, of "\<bar>deltaY\<bar>"] by simp
  have gain: "1 / 2 < v1 \<Longrightarrow> \<bar>deltaY\<bar> \<le> \<bar>deltaY\<bar> * (momentumMultiplier cfg * min v1 2)"
    using amount_gain_aux[OF _ m, of "\<bar>deltaY\<bar>" v1] by simp
  have "(if enableMomentum cfg \<and> 1 / 2 < v2
           then \<bar>deltaY\<bar> * (momentumMultiplier cfg * min v2 2) else \<bar>deltaY\<bar>)
     \<le> (if enableMomentum cfg \<and> 1 / 2 < v1
           then \<bar>deltaY\<bar> * (momentumMultiplier cfg * min v1 2) else \<bar>deltaY\<bar>)"
    using le mono gain
    by (cases "enableMomentum cfg"; cases "1 / 2 < v2"; cases "1 / 2 < v1") auto
  then show ?thesis unfolding a1 a2 by blast
qed

subsection \<open>Move events change the axis-lock flag only\<close>

lemma handleTouchMove_isScrolling: "\<exists>b. handleTouchMove cfg ts h = h\<lparr>isScrolling := b\<rparr>"
proof (cases "handleTouchMove cfg ts h = h")
  case True
  then have "handleTouchMove cfg ts h = h\<lparr>isScrolling := isScrolling h\<rparr>" by simp
  then show ?thesis ..
next
  case False
  then have "handleTouchMove cfg ts h = h\<lparr>isScrolling := True\<rparr>"
    by (auto simp: handleTouchMove_def Let_def split: list.splits if_splits)
  then show ?thesis ..
qed

lemma deliver_move: "\<exists>b. deliver cfg (TouchMove ts) (h, p) = (h\<lparr>isScrolling := b\<rparr>, p)"
proof (cases "OnTouchMove \<in> set (listeners p)")
  case True
  obtain b where "handleTouchMove cfg ts h = h\<lparr>isScrolling := b\<rparr>"
    using handleTouchMove_isScrolling by blast
  with True have "deliver cfg (TouchMove ts) (h, p) = (h\<lparr>isScrolling := b\<rparr>, p)"
    by (simp add: deliver_def)
  then show ?thesis ..
next
  case False
  then have "deliver cfg (TouchMove ts) (h, p) = (h\<lparr>isScrolling := isScrolling h\<rparr>, p)"
    by (simp add: deliver_def)
  then show ?thesis ..
qed

lemma run_moves: "\<exists>b. run cfg (map TouchMove ms) (h, p) = (h\<lparr>isScrolling := b\<rparr>, p)"
proof (induction ms arbitrary: h)
  case Nil
  have "run cfg (map TouchMove []) (h, p) = (h\<lparr>isScrolling := isScrolling h\<rparr>, p)" by simp
  then show ?case ..
next
  case (Cons m ms)
  obtain b where b: "deliver cfg (TouchMove m) (h, p) = (h\<lparr>isScrolling := b\<rparr>, p)"
    using deliver_move by blast
  obtain b' where "run cfg (map TouchMove ms) (h\<lparr>isScrolling := b\<rparr>, p)
      = (h\<lparr>isScrolling := b\<rparr>\<lparr>isScrolling := b'\<rparr>, p)"
    using Cons.IH by blast
  with b have "run cfg (map TouchMove (m # ms)) (h, p) = (h\<lparr>isScrolling := b'\<rparr>, p)" by simp
  then show ?case ..
qed

lemma showGradient_isScrolling [simp]:
  "showGradient cfg (h\<lparr>isScrolling := b\<rparr>) d p = showGradient cfg h d p"
  by (auto simp: showGradient_def)

lemma handleVerticalScroll_isScrolling [simp]:
  "handleVerticalScroll cfg (h\<lparr>isScrolling := b\<rparr>) e dy dt d p
     = handleVerticalScroll cfg h e dy dt d p"
  by (simp add: handleVerticalScroll_def)

lemma handleTouchEnd_isScrolling:
  "fst (handleTouchEnd cfg ts e (h\<lparr>isScrolling := b\<rparr>) p) = fst (handleTouchEnd cfg ts e h p) \<and>
   snd (snd (handleTouchEnd cfg ts e (h\<lparr>isScrolling := b\<rparr>) p))
     = snd (snd (handleTouchEnd cfg ts e h p)) \<and>
   (fst (snd (handleTouchEnd cfg ts e (h\<lparr>isScrolling := b\<rparr>) p)))\<lparr>isScrolling := False\<rparr>
     = (fst (snd (handleTouchEnd cfg ts e h p)))\<lparr>isScrolling := False\<rparr>"
  by (simp add: handleTouchEnd_def resetTouch_def Let_def
      split: list.splits prod.splits completion.splits)

lemma deliver_end_isScrolling:
  "snd (deliver cfg (TouchEnd ts e) (h\<lparr>isScrolling := b\<rparr>, p))
     = snd (deliver cfg (TouchEnd ts e) (h, p)) \<and>
   (fst (deliver cfg (TouchEnd ts e) (h\<lparr>isScrolling := b\<rparr>, p)))\<lparr>isScrolling := False\<rparr>
     = (fst (deliver cfg (TouchEnd ts e) (h, p)))\<lparr>isScrolling := False\<rparr>"
proof (cases "OnTouchEnd \<in> set (listeners p)")
  case False
  then show ?thesis by (simp add: deliver_def)
next
  case True
  obtain c h1 p1 where r1: "handleTouchEnd cfg ts e h p = (c, h1, p1)"
    by (cases "handleTouchEnd cfg ts e h p") auto
  obtain c' h2 p2 where r2: "handleTouchEnd cfg ts e (h\<lparr>isScrolling := b\<rparr>) p = (c', h2, p2)"
    by (cases "handleTouchEnd cfg ts e (h\<lparr>isScrolling := b\<rparr>) p") auto
  from handleTouchEnd_isScrolling[where cfg = cfg and ts = ts and e = e and h = h and b = b
      and p = p] r1 r2
  have "c' = c" "p2 = p1" "h2\<lparr>isScrolling := False\<rparr> = h1\<lparr>isScrolling := False\<rparr>"
    by simp_all
  with True r1 r2 show ?thesis by (simp add: deliver_def split: completion.splits)
qed

subsection \<open>What the scroll stage writes\<close>

lemma showGradient_fields [simp]:
  "scrolls (showGradient cfg h d q) = scrolls q"
  "listeners (showGradient cfg h d q) = listeners q"
  "uncaught (showGradient cfg h d q) = uncaught q"
  "bodyNodes (showGradient cfg h d q) = bodyNodes q"
  by (simp_all add: showGradient_def)

lemma snapToNearestSection_fields [simp]:
  "scrolls (snapToNearestSection cfg e q) = scrolls q"
  "listeners (snapToNearestSection cfg e q) = listeners q"
  "uncaught (snapToNearestSection cfg e q) = uncaught q"
  "bodyNodes (snapToNearestSection cfg e q) = bodyNodes q"
  by (simp_all add: snapToNearestSection_def split: option.splits)

lemma handleVerticalScroll_fields [simp]:
  "listeners (handleVerticalScroll cfg h e dy dt d q) = listeners q"
  "uncaught (handleVerticalScroll cfg h e dy dt d q) = uncaught q"
  "bodyNodes (handleVerticalScroll cfg h e dy dt d q) = bodyNodes q"
  by (simp_all add: handleVerticalScroll_def Let_def)

lemma scrolls_handleVerticalScroll:
  "scrolls (handleVerticalScroll cfg h e dy dt d q) =
     scrolls q @ [(js_max 0 (if d = Up then js_plus (currentScroll e) (scrollAmount cfg dy dt)
                             else js_minus (currentScroll e) (scrollAmount cfg dy dt)),
                   scrollSmoothness cfg)]"
  by (simp add: handleVerticalScroll_def Let_def)

subsection \<open>The constructor\<close>

lemma constructor_idle:
  "touchStartX (fst (constructor cfg p)) = None \<and> touchStartY (fst (constructor cfg p)) = None \<and>
   touchStartTime (fst (constructor cfg p)) = None \<and> \<not> isScrolling (fst (constructor cfg p))"
  by (simp add: constructor_def createGradientOverlay_def Let_def split: prod.splits)

lemma constructor_listeners:
  "OnTouchStart \<in> set (listeners (snd (constructor cfg p))) \<and>
   OnTouchMove \<in> set (listeners (snd (constructor cfg p))) \<and>
   OnTouchEnd \<in> set (listeners (snd (constructor cfg p))) \<and>
   OnTouchCancel \<in> set (listeners (snd (constructor cfg p)))"
  by (simp add: constructor_def createGradientOverlay_def bindEvents_def Let_def
      split: prod.splits)

subsection \<open>Start, moves, cancel\<close>

lemma resetTouch_isScrolling [simp]: "resetTouch (h\<lparr>isScrolling := b\<rparr>) = resetTouch h"
  by (simp add: resetTouch_def)

lemma resetTouch_idle:
  "touchStartX h = None \<Longrightarrow> touchStartY h = None \<Longrightarrow> touchStartTime h = None \<Longrightarrow>
   \<not> isScrolling h \<Longrightarrow> resetTouch h = h"
  by (cases h) (simp add: resetTouch_def)

lemma resetTouch_handleTouchStart:
  "touchStartX h = None \<Longrightarrow> touchStartY h = None \<Longrightarrow> touchStartTime h = None \<Longrightarrow>
   \<not> isScrolling h \<Longrightarrow>
   \<exists>x. resetTouch (handleTouchStart ts e h) = h\<lparr>lastScrollTop := x\<rparr>"
proof (cases ts)
  case Nil
  assume "touchStartX h = None" "touchStartY h = None" "touchStartTime h = None"
    "\<not> isScrolling h"
  then have "resetTouch h = h\<lparr>lastScrollTop := lastScrollTop h\<rparr>"
    by (simp add: resetTouch_idle)
  with Nil have "resetTouch (handleTouchStart ts e h) = h\<lparr>lastScrollTop := lastScrollTop h\<rparr>"
    by (simp add: handleTouchStart_def)
  then show ?thesis ..
next
  case (Cons t rest)
  assume "touchStartX h = None" "touchStartY h = None" "touchStartTime h = None"
    "\<not> isScrolling h"
  then have "resetTouch (handleTouchStart ts e h) = h\<lparr>lastScrollTop := currentScroll e\<rparr>"
    using Cons by (cases h) (simp add: resetTouch_def handleTouchStart_def)
  then show ?thesis ..
qed

lemma handleTouchStart_lastScrollTop [simp]:
  "handleTouchStart (t # ts) e (h\<lparr>lastScrollTop := x\<rparr>) = handleTouchStart (t # ts) e h"
  by (simp add: handleTouchStart_def)

lemma start_moves_cancel:
  assumes idle: "touchStartX h = None" "touchStartY h = None" "touchStartTime h = None"
      "\<not> isScrolling h"
    and bound: "OnTouchStart \<in> set (listeners p)" "OnTouchCancel \<in> set (listeners p)"
  shows "\<exists>x. run cfg (TouchStart ts e # map TouchMove ms @ [TouchCancel]) (h, p)
             = (h\<lparr>lastScrollTop := x\<rparr>, p)"
proof -
  have s: "deliver cfg (TouchStart ts e) (h, p) = (handleTouchStart ts e h, p)"
    using bound by (simp add: deliver_def)
  obtain b where m: "run cfg (map TouchMove ms) (handleTouchStart ts e h, p)
      = ((handleTouchStart ts e h)\<lparr>isScrolling := b\<rparr>, p)"
    using run_moves by blast
  have c: "deliver cfg TouchCancel ((handleTouchStart ts e h)\<lparr>isScrolling := b\<rparr>, p)
      = (resetTouch (handleTouchStart ts e h), p)"
    using bound by (simp add: deliver_def handleTouchCancel_def)
  obtain x where "resetTouch (handleTouchStart ts e h) = h\<lparr>lastScrollTop := x\<rparr>"
    using resetTouch_handleTouchStart[OF idle] by blast
  then have "run cfg (TouchStart ts e # map TouchMove ms @ [TouchCancel]) (h, p)
      = (h\<lparr>lastScrollTop := x\<rparr>, p)"
    by (simp add: run_append s m c)
  then show ?thesis ..
qed

lemma deliver_start_lastScrollTop:
  "OnTouchStart \<in> set (listeners p) \<Longrightarrow>
   deliver cfg (TouchStart (t # ts) e) (h\<lparr>lastScrollTop := x\<rparr>, p)
     = deliver cfg (TouchStart (t # ts) e) (h, p)"
  by (simp add: deliver_def)

subsection \<open>The origin fields\<close>

lemma handleTouchEnd_handler:
  "fst (snd (handleTouchEnd cfg ts e h p)) = h \<or>
   fst (snd (handleTouchEnd cfg ts e h p)) = resetTouch h"
  by (simp add: handleTouchEnd_def Let_def split: list.splits prod.splits completion.splits)

lemma originConsistent_resetTouch [simp]: "originConsistent (resetTouch h)"
  by (simp add: originConsistent_def resetTouch_def)

lemma originConsistent_handleTouchStart:
  "originConsistent h \<Longrightarrow> originConsistent (handleTouchStart ts e h)"
  by (simp add: originConsistent_def handleTouchStart_def split: list.splits)

lemma originConsistent_isScrolling [simp]:
  "originConsistent (h\<lparr>isScrolling := b\<rparr>) = originConsistent h"
  by (simp add: originConsistent_def)

lemma originConsistent_handleTouchMove:
  "originConsistent h \<Longrightarrow> originConsistent (handleTouchMove cfg ts h)"
proof -
  assume c: "originConsistent h"
  obtain b where "handleTouchMove cfg ts h = h\<lparr>isScrolling := b\<rparr>"
    using handleTouchMove_isScrolling by blast
  with c show ?thesis by simp
qed

lemma originConsistent_handleEvent:
  "originConsistent h \<Longrightarrow> originConsistent (fst (snd (handleEvent cfg ev h p)))"
proof (cases ev)
  case (TouchStart ts e)
  assume "originConsistent h"
  with TouchStart show ?thesis by (simp add: originConsistent_handleTouchStart)
next
  case (TouchMove ts)
  assume "originConsistent h"
  with TouchMove show ?thesis by (simp add: originConsistent_handleTouchMove)
next
  case (TouchEnd ts e)
  assume "originConsistent h"
  with TouchEnd show ?thesis using handleTouchEnd_handler[of cfg ts e h p] by auto
next
  case TouchCancel
  then show ?thesis by (simp add: handleTouchCancel_def)
qed

lemma originConsistent_deliver:
  "originConsistent (fst hp) \<Longrightarrow> originConsistent (fst (deliver cfg ev hp))"
proof -
  assume c: "originConsistent (fst hp)"
  obtain h p where hp: "hp = (h, p)" by (cases hp) auto
  obtain r h1 p1 where r: "handleEvent cfg ev h p = (r, h1, p1)"
    by (cases "handleEvent cfg ev h p") auto
  have "originConsistent h1"
    using originConsistent_handleEvent[where h = h and cfg = cfg and ev = ev and p = p] c hp r
    by simp
  with c hp r show ?thesis by (cases r) (simp_all add: deliver_def)
qed

lemma originConsistent_run:
  "originConsistent (fst hp) \<Longrightarrow> originConsistent (fst (run cfg evs hp))"
  by (induction evs arbitrary: hp) (simp_all add: originConsistent_deliver)

lemma originConsistent_constructor: "originConsistent (fst (constructor cfg p))"
  using constructor_idle[of cfg p] by (simp add: originConsistent_def)

subsection \<open>Destroy\<close>

lemma destroy_overlays:
  "gradientOverlay (fst (destroy hp)) = None \<and> gradientOverlayBottom (fst (destroy hp)) = None"
  by (cases hp) (simp add: destroy_def split: option.splits)

lemma destroy_idempotent: "destroy (destroy hp) = destroy hp"
proof -
  obtain h p where d: "destroy hp = (h, p)" by (cases "destroy hp") auto
  with destroy_overlays[of hp] have "gradientOverlay h = None" "gradientOverlayBottom h = None"
    by simp_all
  then have "destroy (h, p) = (h, p)" by (simp add: destroy_def)
  with d show ?thesis by simp
qed

lemma sameGesture_destroy: "sameGesture (destroy hp) hp"
  by (cases hp) (simp add: sameGesture_def destroy_def split: option.splits)

lemma destroy_keeps:
  "listeners (snd (destroy hp)) = listeners (snd hp) \<and> timers (snd (destroy hp)) = timers (snd hp)"
  by (cases hp) (simp add: destroy_def split: option.splits)

lemma destroy_constructor_bodyNodes:
  assumes "\<forall>n \<in> set (bodyNodes p). n < nextNode p"
  shows "bodyNodes (snd (destroy (constructor cfg p))) = bodyNodes p"
proof -
  have a: "nextNode p \<notin> set (bodyNodes p)" and b: "Suc (nextNode p) \<notin> set (bodyNodes p)"
    using assms by auto
  show ?thesis using a b
    by (simp add: destroy_def constructor_def createGradientOverlay_def bindEvents_def Let_def)
qed

lemma sameGesture_handleTouchEnd:
  assumes "touchStartX h = touchStartX h'" "touchStartY h = touchStartY h'"
    "touchStartTime h = touchStartTime h'" "lastScrollTop h = lastScrollTop h'"
    "isScrolling h = isScrolling h'"
    "listeners p = listeners p'" "scrolls p = scrolls p'" "swipes p = swipes p'"
    "uncaught p = uncaught p'"
  shows "fst (handleTouchEnd cfg ts e h p) = fst (handleTouchEnd cfg ts e h' p') \<and>
         sameGesture (snd (handleTouchEnd cfg ts e h p)) (snd (handleTouchEnd cfg ts e h' p'))"
  using assms
  by (simp add: handleTouchEnd_def invokeOnSwipe_def sameGesture_def resetTouch_def Let_def
      scrolls_handleVerticalScroll split: list.splits option.splits completion.splits)

lemma sameGesture_deliver:
  assumes "sameGesture a b"
  shows "sameGesture (deliver cfg ev a) (deliver cfg ev b)"
proof -
  obtain h p where a: "a = (h, p)" by (cases a) auto
  obtain h' p' where b: "b = (h', p')" by (cases b) auto
  note s = assms[unfolded a b sameGesture_def, simplified]
  show ?thesis
  proof (cases ev)
    case (TouchStart ts e)
    then show ?thesis using s
      by (simp add: a b deliver_def sameGesture_def handleTouchStart_def split: list.splits)
  next
    case (TouchMove ts)
    then show ?thesis using s
      by (simp add: a b deliver_def sameGesture_def handleTouchMove_def Let_def
          split: list.splits)
  next
    case TouchCancel
    then show ?thesis using s
      by (simp add: a b deliver_def sameGesture_def handleTouchCancel_def resetTouch_def)
  next
    case (TouchEnd ts e)
    obtain c h1 p1 where r1: "handleTouchEnd cfg ts e h p = (c, h1, p1)"
      by (cases "handleTouchEnd cfg ts e h p") auto
    obtain c' h2 p2 where r2: "handleTouchEnd cfg ts e h' p' = (c', h2, p2)"
      by (cases "handleTouchEnd cfg ts e h' p'") auto
    have "c = c' \<and> sameGesture (h1, p1) (h2, p2)"
      using sameGesture_handleTouchEnd[of h h' p p' cfg ts e] s r1 r2 by simp
    then show ?thesis using TouchEnd s r1 r2
      by (cases c') (simp_all add: a b deliver_def sameGesture_def)
  qed
qed

lemma sameGesture_run: "sameGesture a b \<Longrightarrow> sameGesture (run cfg evs a) (run cfg evs b)"
  by (induction evs arbitrary: a b) (simp_all add: sameGesture_deliver)

subsection \<open>The outcome of an end event\<close>

lemma axisConfig_flags [simp]:
  "verticalOnly (axisConfig m cfg) = (m = Vertical)"
  "scrollSmoothness (axisConfig m cfg) = scrollSmoothness cfg"
  by (cases m; simp)+

lemma handleTouchEnd_invalid:
  assumes "touchStartX h = Some ox" "touchStartY h = Some oy"
    and "\<not> isValidSwipe cfg (clientX t - ox) (clientY t - oy)"
  shows "handleTouchEnd cfg (t # ts) e h p = (Normal, resetTouch h, p)"
  using assms by (simp add: handleTouchEnd_def toNumber_def Let_def)

lemma handleTouchEnd_valid:
  assumes "touchStartX h = Some ox" "touchStartY h = Some oy" "touchStartTime h = Some ot"
    and "isValidSwipe cfg (clientX t - ox) (clientY t - oy)"
    and "c = (case onSwipe cfg of None \<Rightarrow> Normal
              | Some g \<Rightarrow> g (getSwipeDirection cfg (clientX t - ox) (clientY t - oy))
                           (clientX t - ox) (clientY t - oy) (now e - ot))"
  shows "fst (handleTouchEnd cfg (t # ts) e h p) = c \<and>
    fst (snd (handleTouchEnd cfg (t # ts) e h p)) = (if c = Exception then h else resetTouch h) \<and>
    swipes (snd (snd (handleTouchEnd cfg (t # ts) e h p))) =
      (if onSwipe cfg = None then swipes p
       else swipes p @ [(getSwipeDirection cfg (clientX t - ox) (clientY t - oy),
                         clientX t - ox, clientY t - oy, now e - ot)]) \<and>
    scrolls (snd (snd (handleTouchEnd cfg (t # ts) e h p))) =
      (if c = Normal \<and> verticalOnly cfg
       then scrolls p @
         [(js_max 0
            (if getSwipeDirection cfg (clientX t - ox) (clientY t - oy) = Up
             then js_plus (currentScroll e) (scrollAmount cfg (clientY t - oy) (now e - ot))
             else js_minus (currentScroll e) (scrollAmount cfg (clientY t - oy) (now e - ot))),
           scrollSmoothness cfg)]
       else scrolls p)"
proof (cases "onSwipe cfg")
  case None
  then show ?thesis using assms
    by (simp add: handleTouchEnd_def invokeOnSwipe_def toNumber_def Let_def
        scrolls_handleVerticalScroll)
next
  case (Some g)
  show ?thesis
  proof (cases c)
    case Normal
    then show ?thesis using assms Some
      by (simp add: handleTouchEnd_def invokeOnSwipe_def toNumber_def Let_def
          scrolls_handleVerticalScroll)
  next
    case Exception
    then show ?thesis using assms Some
      by (simp add: handleTouchEnd_def invokeOnSwipe_def toNumber_def Let_def)
  qed
qed

section \<open>The claims\<close>

subsection \<open>The validity gate\<close>

text \<open>
  Claim C2. Whatever the final deltas, the touch-end handler treats the interaction as a
  swipe exactly when the specification's validity gate holds: in vertical mode
  \<open>|deltaY| > |deltaX|\<close> and \<open>|deltaY| \<ge> minSwipeDistance\<close>, in horizontal mode the
  same with the axes exchanged, in mode any the larger absolute delta at least
  \<open>minSwipeDistance\<close>. In vertical mode \<open>|deltaX| > |deltaY|\<close> is never a swipe,
  \<open>|deltaY| = minSwipeDistance - 1\<close> is never a swipe, and \<open>|deltaY| = minSwipeDistance\<close>
  with a smaller \<open>|deltaX|\<close> is a swipe with a direction. For an end event that carries
  a touch, on a handler whose origin is set: when the gate fails the handler only resets
  the gesture state, with no callback invocation, no scroll command and no other change of
  the host; when the gate holds the registered callback is invoked with the direction,
  the raw deltas and the elapsed time, the handler completes as the callback does, the
  gesture state is reset unless the callback throws, and, in vertical mode and unless the
  callback throws, exactly one scroll command is issued, to the current scroll position
  plus (direction up) or minus (direction down) the scroll amount, clamped at 0; in the
  other two modes no scroll command is issued.
\<close>

theorem validity_gate:
  "isValidSwipe (axisConfig m cfg) deltaX deltaY
     = spec_validityGate m (minSwipeDistance cfg) deltaX deltaY \<and>
   (\<bar>deltaX\<bar> > \<bar>deltaY\<bar> \<longrightarrow> \<not> isValidSwipe (axisConfig Vertical cfg) deltaX deltaY) \<and>
   (\<bar>deltaY\<bar> = minSwipeDistance cfg - 1 \<longrightarrow>
      \<not> isValidSwipe (axisConfig Vertical cfg) deltaX deltaY) \<and>
   (\<bar>deltaY\<bar> = minSwipeDistance cfg \<and> \<bar>deltaX\<bar> < \<bar>deltaY\<bar> \<longrightarrow>
      isValidSwipe (axisConfig Vertical cfg) deltaX deltaY \<and>
      getSwipeDirection (axisConfig Vertical cfg) deltaX deltaY
        = (if deltaY > 0 then Down else Up)) \<and>
   (touchStartX h = Some ox \<and> touchStartY h = Some oy \<and> touchStartTime h = Some ot \<and>
    onSwipe cfg = Some f \<and> deltaX = clientX t - ox \<and> deltaY = clientY t - oy \<longrightarrow>
      swipes (snd (snd (handleTouchEnd (axisConfig m cfg) (t # ts) e h p))) =
        (if spec_validityGate m (minSwipeDistance cfg) deltaX deltaY
         then swipes p @ [(getSwipeDirection (axisConfig m cfg) deltaX deltaY,
                           deltaX, deltaY, now e - ot)]
         else swipes p)) \<and>
   (touchStartX h = Some ox \<and> touchStartY h = Some oy \<and> touchStartTime h = Some ot \<and>
    deltaX = clientX t - ox \<and> deltaY = clientY t - oy \<and>
    c = (case onSwipe cfg of None \<Rightarrow> Normal
         | Some g \<Rightarrow> g (getSwipeDirection (axisConfig m cfg) deltaX deltaY)
                      deltaX deltaY (now e - ot)) \<longrightarrow>
      (\<not> spec_validityGate m (minSwipeDistance cfg) deltaX deltaY \<longrightarrow>
         handleTouchEnd (axisConfig m cfg) (t # ts) e h p = (Normal, resetTouch h, p)) \<and>
      (spec_validityGate m (minSwipeDistance cfg) deltaX deltaY \<longrightarrow>
         fst (handleTouchEnd (axisConfig m cfg) (t # ts) e h p) = c \<and>
         fst (snd (handleTouchEnd (axisConfig m cfg) (t # ts) e h p))
           = (if c = Exception then h else resetTouch h) \<and>
         swipes (snd (snd (handleTouchEnd (axisConfig m cfg) (t # ts) e h p))) =
           (if onSwipe cfg = None then swipes p
            else swipes p @ [(getSwipeDirection (axisConfig m cfg) deltaX deltaY,
                              deltaX, deltaY, now e - ot)]) \<and>
         scrolls (snd (snd (handleTouchEnd (axisConfig m cfg) (t # ts) e h p))) =
           (if c = Normal \<and> m = Vertical
            then scrolls p @
              [(js_max 0
                 (if getSwipeDirection (axisConfig m cfg) deltaX deltaY = Up
                  then js_plus (currentScroll e)
                         (scrollAmount (axisConfig m cfg) deltaY (now e - ot))
                  else js_minus (currentScroll e)
                         (scrollAmount (axisConfig m cfg) deltaY (now e - ot))),
                scrollSmoothness cfg)]
            else scrolls p)))"
proof (intro conjI impI)
  show "isValidSwipe (axisConfig m cfg) deltaX deltaY
     = spec_validityGate m (minSwipeDistance cfg) deltaX deltaY"
    by (rule isValidSwipe_axis)
next
  assume "\<bar>deltaX\<bar> > \<bar>deltaY\<bar>"
  then show "\<not> isValidSwipe (axisConfig Vertical cfg) deltaX deltaY"
    using isValidSwipe_axis[of Vertical cfg deltaX deltaY] by simp
next
  assume "\<bar>deltaY\<bar> = minSwipeDistance cfg - 1"
  then show "\<not> isValidSwipe (axisConfig Vertical cfg) deltaX deltaY"
    using isValidSwipe_axis[of Vertical cfg deltaX deltaY] by simp
next
  assume "\<bar>deltaY\<bar> = minSwipeDistance cfg \<and> \<bar>deltaX\<bar> < \<bar>deltaY\<bar>"
  then show "isValidSwipe (axisConfig Vertical cfg) deltaX deltaY"
    using isValidSwipe_axis[of Vertical cfg deltaX deltaY] by simp
next
  show "getSwipeDirection (axisConfig Vertical cfg) deltaX deltaY
      = (if deltaY > 0 then Down else Up)"
    by (simp add: getSwipeDirection_def)
next
  assume "touchStartX h = Some ox \<and> touchStartY h = Some oy \<and> touchStartTime h = Some ot \<and>
    onSwipe cfg = Some f \<and> deltaX = clientX t - ox \<and> deltaY = clientY t - oy"
  then show "swipes (snd (snd (handleTouchEnd (axisConfig m cfg) (t # ts) e h p))) =
        (if spec_validityGate m (minSwipeDistance cfg) deltaX deltaY
         then swipes p @ [(getSwipeDirection (axisConfig m cfg) deltaX deltaY,
                           deltaX, deltaY, now e - ot)]
         else swipes p)"
    using handleTouchEnd_swipes[of h ox oy ot "axisConfig m cfg" f t ts e p]
      isValidSwipe_axis[of m cfg deltaX deltaY]
    by (simp del: axisConfig.simps)
next
  assume a: "touchStartX h = Some ox \<and> touchStartY h = Some oy \<and> touchStartTime h = Some ot \<and>
    deltaX = clientX t - ox \<and> deltaY = clientY t - oy \<and>
    c = (case onSwipe cfg of None \<Rightarrow> Normal
         | Some g \<Rightarrow> g (getSwipeDirection (axisConfig m cfg) deltaX deltaY)
                      deltaX deltaY (now e - ot))"
  assume "\<not> spec_validityGate m (minSwipeDistance cfg) deltaX deltaY"
  then have "\<not> isValidSwipe (axisConfig m cfg) (clientX t - ox) (clientY t - oy)"
    using a isValidSwipe_axis[of m cfg deltaX deltaY] by simp
  then show "handleTouchEnd (axisConfig m cfg) (t # ts) e h p = (Normal, resetTouch h, p)"
    using a by (intro handleTouchEnd_invalid) simp_all
next
  assume a: "touchStartX h = Some ox \<and> touchStartY h = Some oy \<and> touchStartTime h = Some ot \<and>
    deltaX = clientX t - ox \<and> deltaY = clientY t - oy \<and>
    c = (case onSwipe cfg of None \<Rightarrow> Normal
         | Some g \<Rightarrow> g (getSwipeDirection (axisConfig m cfg) deltaX deltaY)
                      deltaX deltaY (now e - ot))"
  assume "spec_validityGate m (minSwipeDistance cfg) deltaX deltaY"
  then have v: "isValidSwipe (axisConfig m cfg) (clientX t - ox) (clientY t - oy)"
    using a isValidSwipe_axis[of m cfg deltaX deltaY] by simp
  have c: "c = (case onSwipe (axisConfig m cfg) of None \<Rightarrow> Normal
         | Some g \<Rightarrow> g (getSwipeDirection (axisConfig m cfg) (clientX t - ox) (clientY t - oy))
                      (clientX t - ox) (clientY t - oy) (now e - ot))"
    using a by (simp split: option.splits)
  have ox: "touchStartX h = Some ox" and oy: "touchStartY h = Some oy"
    and ot: "touchStartTime h = Some ot" using a by simp_all
  note r = handleTouchEnd_valid[OF ox oy ot v c, of ts p]
  have d: "deltaX = clientX t - ox" "deltaY = clientY t - oy" using a by simp_all
  from r show "fst (handleTouchEnd (axisConfig m cfg) (t # ts) e h p) = c" by simp
  from r show "fst (snd (handleTouchEnd (axisConfig m cfg) (t # ts) e h p))
           = (if c = Exception then h else resetTouch h)" by simp
  from r show "swipes (snd (snd (handleTouchEnd (axisConfig m cfg) (t # ts) e h p))) =
           (if onSwipe cfg = None then swipes p
            else swipes p @ [(getSwipeDirection (axisConfig m cfg) deltaX deltaY,
                              deltaX, deltaY, now e - ot)])"
    unfolding d by (simp del: axisConfig.simps)
  from r show "scrolls (snd (snd (handleTouchEnd (axisConfig m cfg) (t # ts) e h p))) =
           (if c = Normal \<and> m = Vertical
            then scrolls p @
              [(js_max 0
                 (if getSwipeDirection (axisConfig m cfg) deltaX deltaY = Up
                  then js_plus (currentScroll e)
                         (scrollAmount (axisConfig m cfg) deltaY (now e - ot))
                  else js_minus (currentScroll e)
                         (scrollAmount (axisConfig m cfg) deltaY (now e - ot))),
                scrollSmoothness cfg)]
            else scrolls p)"
    unfolding d by (simp del: axisConfig.simps)
qed

theorem validity_gate_witness:
  "\<bar>100\<bar> > \<bar>50 :: rat\<bar> \<and> \<not> isValidSwipe (axisConfig Vertical DEFAULT_CONFIG) 100 50 \<and>
   \<bar>- 25 :: rat\<bar> = minSwipeDistance DEFAULT_CONFIG - 1 \<and>
   \<not> isValidSwipe (axisConfig Vertical DEFAULT_CONFIG) 0 (- 25) \<and>
   \<bar>- 26 :: rat\<bar> = minSwipeDistance DEFAULT_CONFIG \<and> \<bar>0 :: rat\<bar> < \<bar>- 26\<bar> \<and>
   isValidSwipe (axisConfig Vertical DEFAULT_CONFIG) 0 (- 26) \<and>
   getSwipeDirection (axisConfig Vertical DEFAULT_CONFIG) 0 (- 26) = Up \<and>
   swipes (snd (snd (handleTouchEnd
       (axisConfig Vertical (DEFAULT_CONFIG\<lparr>onSwipe := Some returningCallback\<rparr>))
       [touchAt 100 474] (envAt 100 200)
       (handleTouchStart [touchAt 100 500] (envAt 0 200) (fst (constructor DEFAULT_CONFIG emptyHost)))
       emptyHost)))
     = [(Up, 0, - 26, 100)] \<and>
   scrolls (snd (snd (handleTouchEnd
       (axisConfig Vertical (DEFAULT_CONFIG\<lparr>onSwipe := Some returningCallback\<rparr>))
       [touchAt 100 474] (envAt 100 200)
       (handleTouchStart [touchAt 100 500] (envAt 0 200) (fst (constructor DEFAULT_CONFIG emptyHost)))
       emptyHost)))
     = [(Fin 226, ''smooth'')] \<and>
   touchStartY (fst (snd (handleTouchEnd
       (axisConfig Vertical (DEFAULT_CONFIG\<lparr>onSwipe := Some returningCallback\<rparr>))
       [touchAt 100 474] (envAt 100 200)
       (handleTouchStart [touchAt 100 500] (envAt 0 200) (fst (constructor DEFAULT_CONFIG emptyHost)))
       emptyHost)))
     = None \<and>
   \<not> spec_validityGate Vertical (minSwipeDistance DEFAULT_CONFIG) 0 (- 25) \<and>
   handleTouchEnd
       (axisConfig Vertical (DEFAULT_CONFIG\<lparr>onSwipe := Some returningCallback\<rparr>))
       [touchAt 100 475] (envAt 100 200)
       (handleTouchStart [touchAt 100 500] (envAt 0 200) (fst (constructor DEFAULT_CONFIG emptyHost)))
       emptyHost
     = (Normal,
        resetTouch (handleTouchStart [touchAt 100 500] (envAt 0 200)
          (fst (constructor DEFAULT_CONFIG emptyHost))),
        emptyHost)"
  using validity_gate[where m = Vertical and cfg = DEFAULT_CONFIG and deltaX = 100 and deltaY = 50]
    validity_gate[where m = Vertical and cfg = DEFAULT_CONFIG and deltaX = 0 and deltaY = "- 25"]
    validity_gate[where m = Vertical
      and cfg = "DEFAULT_CONFIG\<lparr>onSwipe := Some returningCallback\<rparr>"
      and deltaX = 0 and deltaY = "- 26" and ox = 100 and oy = 500 and ot = 0 and c = Normal
      and f = returningCallback and t = "touchAt 100 474" and ts = "[]" and e = "envAt 100 200"
      and h = "handleTouchStart [touchAt 100 500] (envAt 0 200)
                 (fst (constructor DEFAULT_CONFIG emptyHost))"
      and p = emptyHost]
    validity_gate[where m = Vertical
      and cfg = "DEFAULT_CONFIG\<lparr>onSwipe := Some returningCallback\<rparr>"
      and deltaX = 0 and deltaY = "- 25" and ox = 100 and oy = 500 and ot = 0 and c = Normal
      and f = returningCallback and t = "touchAt 100 475" and ts = "[]" and e = "envAt 100 200"
      and h = "handleTouchStart [touchAt 100 500] (envAt 0 200)
                 (fst (constructor DEFAULT_CONFIG emptyHost))"
      and p = emptyHost]
  by (simp add: model_defs)

subsection \<open>Ties in mode any\<close>

text \<open>
  Claim C3 says that in mode any an exact tie of the absolute deltas resolves to the
  vertical branch, so that \<open>deltaX = 40\<close>, \<open>deltaY = -40\<close> classifies as up; the
  documentation of the module asks the same of diagonal swipes (they should favor
  vertical). The code does otherwise: with neither axis flag set, the tie falls to the
  else branch of the strict comparison \<open>|deltaY| > |deltaX|\<close>, and at \<open>deltaX = 40\<close>,
  \<open>deltaY = -40\<close> the direction returned is right, not up.
\<close>

theorem tie_any_mode_returns_right:
  "\<bar>- 40 :: rat\<bar> = \<bar>40\<bar> \<and>
   getSwipeDirection (axisConfig AnyAxis DEFAULT_CONFIG) 40 (- 40) = Right \<and>
   getSwipeDirection (axisConfig AnyAxis DEFAULT_CONFIG) 40 (- 40) \<noteq> Up"
  by (simp add: getSwipeDirection_def DEFAULT_CONFIG_def)

subsection \<open>The end-to-end scenario\<close>

text \<open>
  Claim C4. On the default configuration, an interaction that starts at (100, 500) at
  time 0 and ends at (100, 440) at time 100, with the scroll position at 200, classifies
  as up; the velocity is 0.6, above 0.5, so momentum applies; the scroll amount is
  \<open>60 * 2.5 * min(0.6, 2) = 90\<close>, and the one scroll command issued has target
  \<open>200 + 90 = 290\<close>.
\<close>

theorem end_to_end_default:
  "getSwipeDirection DEFAULT_CONFIG (100 - 100) (440 - 500) = Up \<and>
   js_div \<bar>440 - 500\<bar> (of_int (100 - 0)) = Fin (3 / 5) \<and>
   js_gt (Fin (3 / 5)) (1 / 2) \<and>
   scrollAmount DEFAULT_CONFIG (440 - 500) (100 - 0) = Fin 90 \<and>
   scrolls (snd (run DEFAULT_CONFIG
      [TouchStart [touchAt 100 500] (envAt 0 200), TouchEnd [touchAt 100 440] (envAt 100 200)]
      (constructor DEFAULT_CONFIG emptyHost))) = [(Fin 290, ''smooth'')]"
  by (simp add: model_defs)

subsection \<open>Momentum\<close>

text \<open>
  Claim C5, as stated, fails: with momentum enabled and \<open>momentumMultiplier = 1/4\<close>, a
  swipe of 100 pixels in 200 ms (velocity 0.5) scrolls by 100, the same swipe in 100 ms
  (velocity 1) scrolls by 25 only, and 100 exceeds \<open>100 * (1/4) * 2 = 50\<close>.
\<close>

theorem momentum_counterexample:
  "enableMomentum (DEFAULT_CONFIG\<lparr>momentumMultiplier := 1 / 4\<rparr>) \<and>
   \<bar>100 :: rat\<bar> > minSwipeDistance (DEFAULT_CONFIG\<lparr>momentumMultiplier := 1 / 4\<rparr>) \<and>
   scrollAmount (DEFAULT_CONFIG\<lparr>momentumMultiplier := 1 / 4\<rparr>) 100 200 = Fin 100 \<and>
   scrollAmount (DEFAULT_CONFIG\<lparr>momentumMultiplier := 1 / 4\<rparr>) 100 100 = Fin 25 \<and>
   \<not> (100 :: rat) \<le> \<bar>100\<bar> * momentumMultiplier (DEFAULT_CONFIG\<lparr>momentumMultiplier := 1 / 4\<rparr>) * 2"
  by (simp add: scrollAmount_def js_div_def DEFAULT_CONFIG_def)

text \<open>
  Claim C5, amended. For a fixed \<open>deltaY\<close>: when \<open>momentumMultiplier \<ge> 2\<close> (the default
  2.5 is), the scroll amount does not decrease as the elapsed time decreases, over elapsed
  times \<open>\<ge> 0\<close>; when \<open>momentumMultiplier \<ge> 1/2\<close>, the scroll amount is at most
  \<open>|deltaY| * momentumMultiplier * 2\<close> for every elapsed time. In both cases the amount is
  a finite number.
\<close>

theorem momentum_monotone_and_capped:
  "(2 \<le> momentumMultiplier cfg \<and> 0 \<le> t1 \<and> t1 \<le> t2 \<longrightarrow>
      (\<exists>a b. scrollAmount cfg deltaY t2 = Fin a \<and> scrollAmount cfg deltaY t1 = Fin b \<and> a \<le> b)) \<and>
   (1 / 2 \<le> momentumMultiplier cfg \<longrightarrow>
      (\<exists>a. scrollAmount cfg deltaY t = Fin a \<and> a \<le> \<bar>deltaY\<bar> * momentumMultiplier cfg * 2))"
  using scrollAmount_mono[of cfg t1 t2 deltaY] scrollAmount_bound[of cfg deltaY t]
  by blast

theorem momentum_monotone_and_capped_witness:
  "2 \<le> momentumMultiplier DEFAULT_CONFIG \<and> (0 :: int) \<le> 100 \<and> (100 :: int) \<le> 200 \<and>
   (\<exists>a b. scrollAmount DEFAULT_CONFIG (- 60) 200 = Fin a \<and>
          scrollAmount DEFAULT_CONFIG (- 60) 100 = Fin b \<and> a \<le> b) \<and>
   1 / 2 \<le> momentumMultiplier DEFAULT_CONFIG \<and>
   (\<exists>a. scrollAmount DEFAULT_CONFIG (- 60) 20 = Fin a \<and>
        a \<le> \<bar>- 60\<bar> * momentumMultiplier DEFAULT_CONFIG * 2)"
  using momentum_monotone_and_capped[of DEFAULT_CONFIG 100 200 "- 60" 20]
  by (simp add: DEFAULT_CONFIG_def)

text \<open>
  Claim C9. For \<open>deltaY \<noteq> 0\<close> and an elapsed time of 0 with momentum enabled, the velocity
  compares above the threshold, the velocity factor is the cap 2, and the scroll amount is
  the finite number \<open>|deltaY| * momentumMultiplier * 2\<close>.
\<close>

theorem zero_duration_momentum:
  "deltaY \<noteq> 0 \<Longrightarrow> enableMomentum cfg \<Longrightarrow>
   js_gt (js_div \<bar>deltaY\<bar> (of_int 0)) (1 / 2) \<and>
   js_min (js_div \<bar>deltaY\<bar> (of_int 0)) 2 = Fin 2 \<and>
   scrollAmount cfg deltaY 0 = Fin (\<bar>deltaY\<bar> * momentumMultiplier cfg * 2)"
  by (simp add: scrollAmount_def js_div_def)

theorem zero_duration_momentum_witness:
  "(- 60 :: rat) \<noteq> 0 \<and> enableMomentum DEFAULT_CONFIG \<and>
   scrollAmount DEFAULT_CONFIG (- 60) 0 = Fin 300"
  using zero_duration_momentum[of "- 60" DEFAULT_CONFIG]
  by (simp add: DEFAULT_CONFIG_def)

subsection \<open>Move events\<close>

text \<open>
  Claim C10. Two interactions with the same start event and the same end event, run from
  the same state, leave the same host state (the same callback invocations with the same
  direction, deltas and elapsed time, the same scroll commands, the same timers) and the
  same handler state up to the axis-lock flag, whatever move events lie between the two.
\<close>

theorem moves_do_not_matter:
  "snd (run cfg (TouchStart ts0 e0 # map TouchMove ms1 @ [TouchEnd ts1 e1]) hp)
     = snd (run cfg (TouchStart ts0 e0 # map TouchMove ms2 @ [TouchEnd ts1 e1]) hp) \<and>
   (fst (run cfg (TouchStart ts0 e0 # map TouchMove ms1 @ [TouchEnd ts1 e1]) hp))
       \<lparr>isScrolling := False\<rparr>
     = (fst (run cfg (TouchStart ts0 e0 # map TouchMove ms2 @ [TouchEnd ts1 e1]) hp))
       \<lparr>isScrolling := False\<rparr>"
proof -
  obtain h p where s: "deliver cfg (TouchStart ts0 e0) hp = (h, p)"
    by (cases "deliver cfg (TouchStart ts0 e0) hp") auto
  obtain b1 where m1: "run cfg (map TouchMove ms1) (h, p) = (h\<lparr>isScrolling := b1\<rparr>, p)"
    using run_moves by blast
  obtain b2 where m2: "run cfg (map TouchMove ms2) (h, p) = (h\<lparr>isScrolling := b2\<rparr>, p)"
    using run_moves by blast
  have r1: "run cfg (TouchStart ts0 e0 # map TouchMove ms1 @ [TouchEnd ts1 e1]) hp
      = deliver cfg (TouchEnd ts1 e1) (h\<lparr>isScrolling := b1\<rparr>, p)"
    by (simp add: run_append s m1)
  have r2: "run cfg (TouchStart ts0 e0 # map TouchMove ms2 @ [TouchEnd ts1 e1]) hp
      = deliver cfg (TouchEnd ts1 e1) (h\<lparr>isScrolling := b2\<rparr>, p)"
    by (simp add: run_append s m2)
  show ?thesis unfolding r1 r2
    using deliver_end_isScrolling[where cfg = cfg and ts = ts1 and e = e1 and h = h and b = b1
        and p = p]
      deliver_end_isScrolling[where cfg = cfg and ts = ts1 and e = e1 and h = h and b = b2
        and p = p]
    by simp
qed

subsection \<open>A callback that throws\<close>

text \<open>
  Claim C1, as stated, fails. With a callback that throws registered on the default
  configuration, the swipe up leaves one uncaught exception, issues no scroll command
  and leaves the origin set; a second end event is then classified as a swipe once more,
  where after a callback that returns it is ignored.
\<close>

theorem callback_throw_counterexample:
  "uncaught (snd (run (DEFAULT_CONFIG\<lparr>onSwipe := Some throwingCallback\<rparr>) swipeUp
      (constructor (DEFAULT_CONFIG\<lparr>onSwipe := Some throwingCallback\<rparr>) emptyHost))) = 1 \<and>
   scrolls (snd (run (DEFAULT_CONFIG\<lparr>onSwipe := Some throwingCallback\<rparr>) swipeUp
      (constructor (DEFAULT_CONFIG\<lparr>onSwipe := Some throwingCallback\<rparr>) emptyHost))) = [] \<and>
   touchStartY (fst (run (DEFAULT_CONFIG\<lparr>onSwipe := Some throwingCallback\<rparr>) swipeUp
      (constructor (DEFAULT_CONFIG\<lparr>onSwipe := Some throwingCallback\<rparr>) emptyHost))) = Some 500 \<and>
   length (swipes (snd (run (DEFAULT_CONFIG\<lparr>onSwipe := Some throwingCallback\<rparr>)
      (swipeUp @ [TouchEnd [touchAt 100 440] (envAt 150 200)])
      (constructor (DEFAULT_CONFIG\<lparr>onSwipe := Some throwingCallback\<rparr>) emptyHost)))) = 2 \<and>
   length (swipes (snd (run (DEFAULT_CONFIG\<lparr>onSwipe := Some returningCallback\<rparr>)
      (swipeUp @ [TouchEnd [touchAt 100 440] (envAt 150 200)])
      (constructor (DEFAULT_CONFIG\<lparr>onSwipe := Some returningCallback\<rparr>) emptyHost)))) = 1"
  by (simp add: model_defs)

text \<open>
  Claim C1, amended. For every end event that carries a touch, on a handler whose origin
  is set, with deltas that pass the validity gate: if the registered callback throws, the
  exception leaves the touch-end handler, the handler state is left as it was (the
  origin is still set), and the host has seen the callback invocation and nothing else (no
  scroll command); if the callback returns, the touch-end handler completes and the
  gesture state is reset. A later start event that carries a touch overwrites the whole
  gesture state, so the handler state after it is the one it would be after a reset.
\<close>

theorem callback_throw_propagates:
  "touchStartX h = Some ox \<and> touchStartY h = Some oy \<and> touchStartTime h = Some ot \<and>
   onSwipe cfg = Some f \<and> isValidSwipe cfg (clientX t - ox) (clientY t - oy) \<longrightarrow>
     (f (getSwipeDirection cfg (clientX t - ox) (clientY t - oy))
        (clientX t - ox) (clientY t - oy) (now e - ot) = Exception \<longrightarrow>
        handleTouchEnd cfg (t # ts) e h p =
          (Exception, h,
           p\<lparr>swipes := swipes p @ [(getSwipeDirection cfg (clientX t - ox) (clientY t - oy),
                                     clientX t - ox, clientY t - oy, now e - ot)]\<rparr>)) \<and>
     (f (getSwipeDirection cfg (clientX t - ox) (clientY t - oy))
        (clientX t - ox) (clientY t - oy) (now e - ot) = Normal \<longrightarrow>
        fst (handleTouchEnd cfg (t # ts) e h p) = Normal \<and>
        fst (snd (handleTouchEnd cfg (t # ts) e h p)) = resetTouch h) \<and>
     handleTouchStart (u # us) e' h = handleTouchStart (u # us) e' (resetTouch h)"
  by (simp add: handleTouchEnd_def invokeOnSwipe_def toNumber_def Let_def handleTouchStart_def
      resetTouch_def)

theorem callback_throw_propagates_witness:
  "touchStartX (handleTouchStart [touchAt 100 500] (envAt 0 200)
      (fst (constructor DEFAULT_CONFIG emptyHost))) = Some 100 \<and>
   touchStartY (handleTouchStart [touchAt 100 500] (envAt 0 200)
      (fst (constructor DEFAULT_CONFIG emptyHost))) = Some 500 \<and>
   touchStartTime (handleTouchStart [touchAt 100 500] (envAt 0 200)
      (fst (constructor DEFAULT_CONFIG emptyHost))) = Some 0 \<and>
   onSwipe (DEFAULT_CONFIG\<lparr>onSwipe := Some throwingCallback\<rparr>) = Some throwingCallback \<and>
   isValidSwipe (DEFAULT_CONFIG\<lparr>onSwipe := Some throwingCallback\<rparr>) (100 - 100) (440 - 500) \<and>
   throwingCallback Up (100 - 100) (440 - 500) (100 - 0) = Exception \<and>
   handleTouchEnd (DEFAULT_CONFIG\<lparr>onSwipe := Some throwingCallback\<rparr>) [touchAt 100 440]
      (envAt 100 200)
      (handleTouchStart [touchAt 100 500] (envAt 0 200) (fst (constructor DEFAULT_CONFIG emptyHost)))
      emptyHost
    = (Exception,
       handleTouchStart [touchAt 100 500] (envAt 0 200) (fst (constructor DEFAULT_CONFIG emptyHost)),
       emptyHost\<lparr>swipes := [(Up, 0, - 60, 100)]\<rparr>) \<and>
   returningCallback Up (100 - 100) (440 - 500) (100 - 0) = Normal \<and>
   fst (handleTouchEnd (DEFAULT_CONFIG\<lparr>onSwipe := Some returningCallback\<rparr>) [touchAt 100 440]
      (envAt 100 200)
      (handleTouchStart [touchAt 100 500] (envAt 0 200) (fst (constructor DEFAULT_CONFIG emptyHost)))
      emptyHost) = Normal \<and>
   touchStartY (fst (snd (handleTouchEnd (DEFAULT_CONFIG\<lparr>onSwipe := Some returningCallback\<rparr>)
      [touchAt 100 440] (envAt 100 200)
      (handleTouchStart [touchAt 100 500] (envAt 0 200) (fst (constructor DEFAULT_CONFIG emptyHost)))
      emptyHost))) = None"
  using callback_throw_propagates[where cfg = "DEFAULT_CONFIG\<lparr>onSwipe := Some throwingCallback\<rparr>"
      and f = throwingCallback and ox = 100 and oy = 500 and ot = 0 and t = "touchAt 100 440"
      and ts = "[]" and e = "envAt 100 200" and p = emptyHost
      and h = "handleTouchStart [touchAt 100 500] (envAt 0 200)
                 (fst (constructor DEFAULT_CONFIG emptyHost))"]
    callback_throw_propagates[where cfg = "DEFAULT_CONFIG\<lparr>onSwipe := Some returningCallback\<rparr>"
      and f = returningCallback and ox = 100 and oy = 500 and ot = 0 and t = "touchAt 100 440"
      and ts = "[]" and e = "envAt 100 200" and p = emptyHost
      and h = "handleTouchStart [touchAt 100 500] (envAt 0 200)
                 (fst (constructor DEFAULT_CONFIG emptyHost))"]
  by (simp add: model_defs)

subsection \<open>The origin of the gesture state\<close>

text \<open>
  Claim C6, as stated, fails: after a start, an end event whose touch list is empty
  leaves the origin set.
\<close>

theorem origin_counterexample:
  "touchStartX (fst (run DEFAULT_CONFIG
      [TouchStart [touchAt 100 500] (envAt 0 200), TouchEnd [] (envAt 100 200)]
      (constructor DEFAULT_CONFIG emptyHost))) = Some 100 \<and>
   touchStartY (fst (run DEFAULT_CONFIG
      [TouchStart [touchAt 100 500] (envAt 0 200), TouchEnd [] (envAt 100 200)]
      (constructor DEFAULT_CONFIG emptyHost))) = Some 500 \<and>
   touchStartTime (fst (run DEFAULT_CONFIG
      [TouchStart [touchAt 100 500] (envAt 0 200), TouchEnd [] (envAt 100 200)]
      (constructor DEFAULT_CONFIG emptyHost))) = Some 0"
  by (simp add: model_defs)

text \<open>
  Claim C6, amended. In every state reached from the constructor the three origin fields
  are all null or all set. Every start event that carries a touch sets them, to the
  touch and the time of the event; a start event without a touch changes nothing. Every
  cancel event clears them. An end event with a touch clears them when the handler
  completes, that is unless the callback throws; when the callback throws the handler
  state is left as it was, with the origin set. An end event without a touch returns at
  once and changes nothing.
\<close>

theorem origin_lifecycle:
  "originConsistent (fst (run cfg evs (constructor cfg p0))) \<and>
   touchStartX (handleTouchStart (t # ts) e h) = Some (clientX t) \<and>
   touchStartY (handleTouchStart (t # ts) e h) = Some (clientY t) \<and>
   touchStartTime (handleTouchStart (t # ts) e h) = Some (now e) \<and>
   handleTouchStart [] e h = h \<and>
   touchStartX (handleTouchCancel h) = None \<and> touchStartY (handleTouchCancel h) = None \<and>
   touchStartTime (handleTouchCancel h) = None \<and>
   handleTouchEnd cfg [] e h p = (Normal, h, p) \<and>
   (originConsistent h \<and> fst (handleTouchEnd cfg (t # ts) e h p) = Normal \<longrightarrow>
      touchStartX (fst (snd (handleTouchEnd cfg (t # ts) e h p))) = None \<and>
      touchStartY (fst (snd (handleTouchEnd cfg (t # ts) e h p))) = None \<and>
      touchStartTime (fst (snd (handleTouchEnd cfg (t # ts) e h p))) = None) \<and>
   (fst (handleTouchEnd cfg (t # ts) e h p) = Exception \<longrightarrow>
      fst (snd (handleTouchEnd cfg (t # ts) e h p)) = h \<and>
      (touchStartX h \<noteq> None \<or> touchStartY h \<noteq> None))"
proof (intro conjI impI)
  show "originConsistent (fst (run cfg evs (constructor cfg p0)))"
    by (rule originConsistent_run) (rule originConsistent_constructor)
next
  show "handleTouchEnd cfg [] e h p = (Normal, h, p)"
    by (simp add: handleTouchEnd_def)
next
  assume a: "originConsistent h \<and> fst (handleTouchEnd cfg (t # ts) e h p) = Normal"
  then have r: "touchStartX (fst (snd (handleTouchEnd cfg (t # ts) e h p))) = None \<and>
      touchStartY (fst (snd (handleTouchEnd cfg (t # ts) e h p))) = None \<and>
      touchStartTime (fst (snd (handleTouchEnd cfg (t # ts) e h p))) = None"
    by (auto simp: handleTouchEnd_def originConsistent_def resetTouch_def Let_def
        split: prod.splits completion.splits if_splits)
  from r show "touchStartX (fst (snd (handleTouchEnd cfg (t # ts) e h p))) = None" by simp
  from r show "touchStartY (fst (snd (handleTouchEnd cfg (t # ts) e h p))) = None" by simp
  from r show "touchStartTime (fst (snd (handleTouchEnd cfg (t # ts) e h p))) = None" by simp
next
  assume a: "fst (handleTouchEnd cfg (t # ts) e h p) = Exception"
  then have r: "fst (snd (handleTouchEnd cfg (t # ts) e h p)) = h \<and>
      (touchStartX h \<noteq> None \<or> touchStartY h \<noteq> None)"
    by (auto simp: handleTouchEnd_def Let_def split: prod.splits completion.splits if_splits)
  from r show "fst (snd (handleTouchEnd cfg (t # ts) e h p)) = h" by simp
  from r show "touchStartX h \<noteq> None \<or> touchStartY h \<noteq> None" by simp
qed (simp_all add: handleTouchStart_def handleTouchCancel_def resetTouch_def)

theorem origin_lifecycle_witness:
  "originConsistent (handleTouchStart [touchAt 100 500] (envAt 0 200)
      (fst (constructor DEFAULT_CONFIG emptyHost))) \<and>
   fst (handleTouchEnd DEFAULT_CONFIG [touchAt 100 440] (envAt 100 200)
      (handleTouchStart [touchAt 100 500] (envAt 0 200) (fst (constructor DEFAULT_CONFIG emptyHost)))
      emptyHost) = Normal \<and>
   touchStartY (fst (snd (handleTouchEnd DEFAULT_CONFIG [touchAt 100 440] (envAt 100 200)
      (handleTouchStart [touchAt 100 500] (envAt 0 200) (fst (constructor DEFAULT_CONFIG emptyHost)))
      emptyHost))) = None \<and>
   fst (handleTouchEnd (DEFAULT_CONFIG\<lparr>onSwipe := Some throwingCallback\<rparr>) [touchAt 100 440]
      (envAt 100 200)
      (handleTouchStart [touchAt 100 500] (envAt 0 200) (fst (constructor DEFAULT_CONFIG emptyHost)))
      emptyHost) = Exception \<and>
   touchStartY (fst (snd (handleTouchEnd (DEFAULT_CONFIG\<lparr>onSwipe := Some throwingCallback\<rparr>)
      [touchAt 100 440] (envAt 100 200)
      (handleTouchStart [touchAt 100 500] (envAt 0 200) (fst (constructor DEFAULT_CONFIG emptyHost)))
      emptyHost))) = Some 500"
  using origin_lifecycle[where cfg = DEFAULT_CONFIG and t = "touchAt 100 440" and ts = "[]"
      and e = "envAt 100 200" and p = emptyHost
      and h = "handleTouchStart [touchAt 100 500] (envAt 0 200)
                 (fst (constructor DEFAULT_CONFIG emptyHost))"]
    origin_lifecycle[where cfg = "DEFAULT_CONFIG\<lparr>onSwipe := Some throwingCallback\<rparr>"
      and t = "touchAt 100 440" and ts = "[]" and e = "envAt 100 200" and p = emptyHost
      and h = "handleTouchStart [touchAt 100 500] (envAt 0 200)
                 (fst (constructor DEFAULT_CONFIG emptyHost))"]
  by (simp add: model_defs originConsistent_def)

subsection \<open>Teardown\<close>

text \<open>
  Claim C7, as stated, fails. After a swipe up on the default configuration and two
  calls of destroy, the four listeners are still bound and the hide timer of the swipe is
  still pending; the same swipe delivered after that sets the origin at its start event and
  issues a second scroll command at its end event.
\<close>

theorem destroy_counterexample:
  "listeners (snd (destroy (destroy (run DEFAULT_CONFIG swipeUp
      (constructor DEFAULT_CONFIG emptyHost)))))
     = [OnTouchStart, OnTouchMove, OnTouchEnd, OnTouchCancel] \<and>
   timers (snd (destroy (destroy (run DEFAULT_CONFIG swipeUp
      (constructor DEFAULT_CONFIG emptyHost))))) = [HideTop 300] \<and>
   touchStartY (fst (run DEFAULT_CONFIG [TouchStart [touchAt 100 500] (envAt 0 200)]
      (destroy (destroy (run DEFAULT_CONFIG swipeUp (constructor DEFAULT_CONFIG emptyHost))))))
     = Some 500 \<and>
   scrolls (snd (destroy (destroy (run DEFAULT_CONFIG swipeUp
      (constructor DEFAULT_CONFIG emptyHost))))) = [(Fin 290, ''smooth'')] \<and>
   scrolls (snd (run DEFAULT_CONFIG swipeUp
      (destroy (destroy (run DEFAULT_CONFIG swipeUp (constructor DEFAULT_CONFIG emptyHost))))))
     = [(Fin 290, ''smooth''), (Fin 290, ''smooth'')]"
  by (simp add: model_defs)

text \<open>
  Claim C7, amended. destroy is idempotent and removes the overlays: a second call
  changes nothing, both overlay references are null afterwards, and a handler constructed
  on a document and then destroyed leaves the body with the nodes it had before (none, on
  an empty body). destroy leaves the listeners bound and the pending timers pending, and
  touch events delivered after it are handled as before: the gesture state, the callback
  invocations, the scroll commands and the uncaught exceptions after any further events
  are those of a handler that was not destroyed.
\<close>

theorem destroy_removes_overlays_only:
  "destroy (destroy hp) = destroy hp \<and>
   gradientOverlay (fst (destroy hp)) = None \<and>
   gradientOverlayBottom (fst (destroy hp)) = None \<and>
   ((\<forall>n \<in> set (bodyNodes p0). n < nextNode p0) \<longrightarrow>
      bodyNodes (snd (destroy (destroy (constructor cfg p0)))) = bodyNodes p0) \<and>
   listeners (snd (destroy hp)) = listeners (snd hp) \<and>
   timers (snd (destroy hp)) = timers (snd hp) \<and>
   sameGesture (run cfg evs (destroy hp)) (run cfg evs hp)"
  using destroy_idempotent[of hp] destroy_overlays[of hp] destroy_keeps[of hp]
    destroy_constructor_bodyNodes[of p0 cfg] destroy_idempotent[of "constructor cfg p0"]
    sameGesture_run[OF sameGesture_destroy, of cfg evs hp]
  by simp

theorem destroy_removes_overlays_only_witness:
  "bodyNodes (snd (constructor DEFAULT_CONFIG emptyHost)) = [0, 1] \<and>
   bodyNodes (snd (destroy (destroy (constructor DEFAULT_CONFIG emptyHost)))) = [] \<and>
   scrolls (snd (run DEFAULT_CONFIG swipeUp (destroy (constructor DEFAULT_CONFIG emptyHost))))
     = scrolls (snd (run DEFAULT_CONFIG swipeUp (constructor DEFAULT_CONFIG emptyHost)))"
  using destroy_removes_overlays_only[where ?p0.0 = emptyHost and cfg = DEFAULT_CONFIG
      and evs = swipeUp and hp = "constructor DEFAULT_CONFIG emptyHost"]
  by (simp add: model_defs sameGesture_def)

subsection \<open>Cancel\<close>

text \<open>
  Claim C8. A start event, any move events and a cancel event, delivered to a freshly
  constructed handler, leave the host as the constructor left it (no callback invocation,
  no scroll command, no timer) and the gesture state idle; and any later sequence of
  events that begins with a start event carrying a touch runs exactly as it does on the
  freshly constructed handler.
\<close>

theorem cancel_discards_state:
  "snd (run cfg (TouchStart ts e # map TouchMove ms @ [TouchCancel]) (constructor cfg p0))
     = snd (constructor cfg p0) \<and>
   touchStartX (fst (run cfg (TouchStart ts e # map TouchMove ms @ [TouchCancel])
      (constructor cfg p0))) = None \<and>
   touchStartY (fst (run cfg (TouchStart ts e # map TouchMove ms @ [TouchCancel])
      (constructor cfg p0))) = None \<and>
   touchStartTime (fst (run cfg (TouchStart ts e # map TouchMove ms @ [TouchCancel])
      (constructor cfg p0))) = None \<and>
   isScrolling (fst (run cfg (TouchStart ts e # map TouchMove ms @ [TouchCancel])
      (constructor cfg p0))) = False \<and>
   run cfg ((TouchStart ts e # map TouchMove ms @ [TouchCancel]) @ TouchStart (u # us) e' # evs)
       (constructor cfg p0)
     = run cfg (TouchStart (u # us) e' # evs) (constructor cfg p0)"
proof -
  obtain h p where c: "constructor cfg p0 = (h, p)" by (cases "constructor cfg p0") auto
  have idle: "touchStartX h = None" "touchStartY h = None" "touchStartTime h = None"
      "\<not> isScrolling h"
    using constructor_idle[of cfg p0] c by simp_all
  have bound: "OnTouchStart \<in> set (listeners p)" "OnTouchCancel \<in> set (listeners p)"
    using constructor_listeners[of cfg p0] c by simp_all
  obtain x where r: "run cfg (TouchStart ts e # map TouchMove ms @ [TouchCancel]) (h, p)
      = (h\<lparr>lastScrollTop := x\<rparr>, p)"
    using start_moves_cancel[OF idle bound] by blast
  have "run cfg ((TouchStart ts e # map TouchMove ms @ [TouchCancel]) @ TouchStart (u # us) e' # evs)
       (h, p) = run cfg (TouchStart (u # us) e' # evs) (h\<lparr>lastScrollTop := x\<rparr>, p)"
    unfolding run_append r ..
  also have "\<dots> = run cfg (TouchStart (u # us) e' # evs) (h, p)"
    using deliver_start_lastScrollTop[OF bound(1)] by simp
  finally have later:
    "run cfg ((TouchStart ts e # map TouchMove ms @ [TouchCancel]) @ TouchStart (u # us) e' # evs)
       (h, p) = run cfg (TouchStart (u # us) e' # evs) (h, p)" .
  show ?thesis unfolding c r later using idle by simp
qed

end
